theory Spec2Isabelle
  imports Complex_Main
begin

section \<open>Python numbers\<close>

text \<open>
  The bot computes with Python floats and unbounded Python ints. Ints are \<open>int\<close>.
  A float is either a finite value, read here as the real number it denotes, or one of the
  three non-finite values, which the source tests for with \<open>math.isfinite\<close>.
  Exceptions are values of \<open>py_error\<close>; a computation that may raise returns
  \<open>py_error + 'a\<close>.
\<close>

datatype pyfloat = Finite real | PosInf | NegInf | NaN

datatype py_error =
  ValueError | OverflowError | ZeroDivisionError | AttributeError | OtherError

text \<open>
  The float operations whose rounding decides an integer result (a tick, a minimum amount)
  are parameters: \<open>fl_lit\<close> is the float a decimal literal of the source denotes,
  \<open>fl_of_int\<close> the float an int operand is converted to, \<open>fl_add\<close>, \<open>fl_sub\<close>,
  \<open>fl_mul\<close> and \<open>fl_div\<close> are \<open>+\<close>, \<open>-\<close>, \<open>*\<close> and \<open>/\<close> on finite floats, and
  \<open>fl_log\<close> is \<open>math.log\<close> on a positive finite float. What is proved for every
  \<open>float_math\<close> holds for binary64 with its rounding. \<open>exact_math\<close> is the arithmetic
  without rounding. Elsewhere (range percentages, ratios, balances) finite floats are
  computed with as exact reals.
\<close>

record float_math =
  fl_lit :: "real \<Rightarrow> real"
  fl_of_int :: "int \<Rightarrow> real"
  fl_add :: "real \<Rightarrow> real \<Rightarrow> real"
  fl_sub :: "real \<Rightarrow> real \<Rightarrow> real"
  fl_mul :: "real \<Rightarrow> real \<Rightarrow> real"
  fl_div :: "real \<Rightarrow> real \<Rightarrow> real"
  fl_log :: "real \<Rightarrow> real"

definition exact_math :: float_math where
  "exact_math =
     \<lparr> fl_lit = (\<lambda>x. x),
       fl_of_int = real_of_int,
       fl_add = (\<lambda>x y. x + y),
       fl_sub = (\<lambda>x y. x - y),
       fl_mul = (\<lambda>x y. x * y),
       fl_div = (\<lambda>x y. x / y),
       fl_log = ln \<rparr>"

text \<open>\<open>math.isfinite(x)\<close>.\<close>

fun isfinite :: "pyfloat \<Rightarrow> bool" where
  "isfinite (Finite x) = True"
| "isfinite PosInf = False"
| "isfinite NegInf = False"
| "isfinite NaN = False"

text \<open>\<open>x <= 0\<close> on floats: every comparison with NaN is false.\<close>

fun le_zero :: "pyfloat \<Rightarrow> bool" where
  "le_zero (Finite x) = (x \<le> 0)"
| "le_zero PosInf = False"
| "le_zero NegInf = True"
| "le_zero NaN = False"

text \<open>\<open>int(x)\<close> on a finite float truncates toward zero.\<close>

definition py_int :: "real \<Rightarrow> int" where
  "py_int x = (if 0 \<le> x then \<lfloor>x\<rfloor> else \<lceil>x\<rceil>)"

text \<open>\<open>int(x)\<close> on any float: infinities raise OverflowError, NaN raises ValueError.\<close>

fun float_to_int :: "pyfloat \<Rightarrow> py_error + int" where
  "float_to_int (Finite x) = Inr (py_int x)"
| "float_to_int PosInf = Inl OverflowError"
| "float_to_int NegInf = Inl OverflowError"
| "float_to_int NaN = Inl ValueError"

text \<open>\<open>math.log(x)\<close>: a domain error (ValueError) for \<open>x <= 0\<close>, including \<open>-inf\<close>;
  \<open>inf\<close> and \<open>nan\<close> pass through.\<close>

fun math_log :: "float_math \<Rightarrow> pyfloat \<Rightarrow> py_error + pyfloat" where
  "math_log fm (Finite x) = (if x \<le> 0 then Inl ValueError else Inr (Finite (fl_log fm x)))"
| "math_log fm PosInf = Inr PosInf"
| "math_log fm NegInf = Inl ValueError"
| "math_log fm NaN = Inr NaN"

text \<open>Float division by a finite positive constant, the only division by a float constant
  in the tick conversions (\<open>math.log(1.0001)\<close> is a positive float).\<close>

fun fdiv_pos :: "float_math \<Rightarrow> pyfloat \<Rightarrow> real \<Rightarrow> pyfloat" where
  "fdiv_pos fm (Finite x) c = Finite (fl_div fm x c)"
| "fdiv_pos fm PosInf c = PosInf"
| "fdiv_pos fm NegInf c = NegInf"
| "fdiv_pos fm NaN c = NaN"

section \<open>utils/helpers.py\<close>

text \<open>\<open>price_to_tick(price) = int(math.log(price) / math.log(1.0001))\<close>. The same
  expression is written out three times in \<open>calculate_tick_range\<close>.\<close>

definition price_to_tick :: "float_math \<Rightarrow> pyfloat \<Rightarrow> py_error + int" where
  "price_to_tick fm price =
     (case math_log fm price of
        Inl e \<Rightarrow> Inl e
      | Inr l \<Rightarrow> float_to_int (fdiv_pos fm l (fl_log fm (fl_lit fm 1.0001))))"

text \<open>The float quotient \<open>math.log(price) / math.log(1.0001)\<close> of a positive finite
  price, the argument of \<open>int()\<close> in \<open>price_to_tick\<close>.\<close>

definition log_quotient :: "float_math \<Rightarrow> real \<Rightarrow> real" where
  "log_quotient fm p = fl_div fm (fl_log fm p) (fl_log fm (fl_lit fm 1.0001))"

text \<open>\<open>tick_to_price(tick) = 1.0001 ** tick\<close>.\<close>

definition tick_to_price :: "int \<Rightarrow> real" where
  "tick_to_price tick = 1.0001 powi tick"

section \<open>core/uniswap.py: tick ranges\<close>

definition MIN_TICK :: int where "MIN_TICK = -887272"
definition MAX_TICK :: int where "MAX_TICK = 887272"

text \<open>
  The integer part of \<open>calculate_tick_range\<close> (rounding to the spacing, the minimum
  width, the bounds check), from the three ticks the float part produced. Python's
  \<open>//\<close> is floor division, as \<open>div\<close> on \<open>int\<close> is; a zero spacing raises
  ZeroDivisionError, which the function's outer \<open>except Exception\<close> turns into
  \<open>(None, None)\<close>.
\<close>

definition round_tick_bounds :: "int \<Rightarrow> int \<Rightarrow> int \<Rightarrow> int \<Rightarrow> (int \<times> int) option" where
  "round_tick_bounds current_tick upper_tick0 lower_tick0 tick_spacing =
     (if tick_spacing = 0 then None
      else
        let upper_tick1 = ((upper_tick0 div tick_spacing) + 1) * tick_spacing;
            lower_tick1 = (lower_tick0 div tick_spacing) * tick_spacing;
            (lower_tick, upper_tick) =
              (if tick_spacing = 1 then
                 (let min_tick_range = 30 in
                  if upper_tick1 - lower_tick1 < min_tick_range then
                    (let current_tick_rounded = (current_tick div tick_spacing) * tick_spacing;
                         upper_tick2 = current_tick_rounded + (min_tick_range div 2);
                         lower_tick2 = current_tick_rounded - (min_tick_range div 2)
                     in ((lower_tick2 div tick_spacing) * tick_spacing,
                         ((upper_tick2 div tick_spacing) + 1) * tick_spacing))
                  else (lower_tick1, upper_tick1))
               else
                 (if upper_tick1 - lower_tick1 < 2 * tick_spacing then
                    (let current_tick_rounded = (current_tick div tick_spacing) * tick_spacing
                     in (current_tick_rounded - tick_spacing, current_tick_rounded + tick_spacing))
                  else (lower_tick1, upper_tick1)))
        in if lower_tick < MIN_TICK \<or> upper_tick > MAX_TICK then None
           else Some (lower_tick, upper_tick))"

text \<open>
  \<open>calculate_tick_range(current_price, range_percent, tick_spacing)\<close>. The result
  \<open>(None, None)\<close> is \<open>None\<close>, a tick pair \<open>(lower, upper)\<close> is \<open>Some (lower, upper)\<close>.
  Each of the two inner \<open>try\<close> blocks catches ValueError and OverflowError of the tick
  conversion and returns \<open>(None, None)\<close>; any other exception reaches the outer handler
  with the same result.
\<close>

definition calculate_tick_range ::
  "float_math \<Rightarrow> pyfloat \<Rightarrow> real \<Rightarrow> int \<Rightarrow> (int \<times> int) option" where
  "calculate_tick_range fm current_price range_percent tick_spacing =
     (if le_zero current_price \<or> \<not> isfinite current_price then None
      else if range_percent \<le> 0 then None
      else
        (case current_price of
           Finite p \<Rightarrow>
             (case price_to_tick fm (Finite p) of
                Inl e \<Rightarrow> None
              | Inr current_tick \<Rightarrow>
                  (let price_multiplier = fl_add fm 1 (fl_div fm range_percent 100);
                       upper_price = fl_mul fm p price_multiplier;
                       lower_price = fl_div fm p price_multiplier
                   in case price_to_tick fm (Finite upper_price) of
                        Inl e \<Rightarrow> None
                      | Inr upper_tick \<Rightarrow>
                          (case price_to_tick fm (Finite lower_price) of
                             Inl e \<Rightarrow> None
                           | Inr lower_tick \<Rightarrow>
                               round_tick_bounds current_tick upper_tick lower_tick tick_spacing)))
         | _ \<Rightarrow> None))"

section \<open>config/settings.py\<close>

text \<open>The fields of \<open>BotConfig\<close> that the engine reads.\<close>

record bot_config =
  price_range_percent :: real
  min_price_range_percent :: real
  max_price_range_percent :: real
  dynamic_range :: bool
  volatility_multiplier :: real
  rebalance_threshold :: real
  token0_address :: string
  token1_address :: string
  pool_fee :: int
  max_slippage :: real
  min_gas_balance :: real
  range_calculation_method :: string
  range_buffer_percent :: real
  check_interval :: int

text \<open>
  \<open>ConfigManager._validate_range_settings\<close> ("Ensure min < default < max", then the
  bounds of the rebalance threshold), which \<open>load_config\<close> applies to every configuration
  read from the file and \<open>update_config\<close> to every configuration it changes.
\<close>

definition validate_range_settings :: "bot_config \<Rightarrow> bot_config" where
  "validate_range_settings config =
     (let config1 =
            (if min_price_range_percent config \<ge> price_range_percent config
             then config\<lparr>min_price_range_percent := price_range_percent config * 0.5\<rparr>
             else config);
          config2 =
            (if max_price_range_percent config1 \<le> price_range_percent config1
             then config1\<lparr>max_price_range_percent := price_range_percent config1 * 3\<rparr>
             else config1)
      in if rebalance_threshold config2 < 50 then config2\<lparr>rebalance_threshold := 50\<rparr>
         else if rebalance_threshold config2 > 95 then config2\<lparr>rebalance_threshold := 95\<rparr>
         else config2)"

section \<open>core/uniswap.py: volatility and the dynamic range\<close>





section \<open>core/uniswap.py: position range status\<close>

text \<open>The dict returned by \<open>get_position_info\<close> (the fields the engine reads) and the
  dict returned by \<open>get_pool_price\<close>.\<close>

record position_info =
  pi_token_id :: int
  pi_token0 :: string
  pi_token1 :: string
  pi_fee :: int
  pi_tick_lower :: int
  pi_tick_upper :: int
  pi_liquidity :: int
  pi_tokens_owed0 :: int
  pi_tokens_owed1 :: int

record pool_price_info =
  pp_sqrt_price_x96 :: int
  pp_current_tick :: int
  pp_price :: real
  pp_volatility :: real

text \<open>The dict returned by \<open>is_position_in_range\<close>.\<close>

record range_info =
  ri_in_range :: bool
  ri_current_tick :: int
  ri_tick_lower :: int
  ri_tick_upper :: int
  ri_position_ratio :: real
  ri_range_utilization :: real
  ri_tick_deviation :: real
  ri_current_price :: real
  ri_lower_price :: real
  ri_upper_price :: real
  ri_volatility :: real
  ri_liquidity :: int

text \<open>
  The reads of the chain that \<open>is_position_in_range\<close> makes: each returns \<open>None\<close> when
  the source function does, which is also what it does when the call raises.
\<close>

record chain_view =
  get_position_info :: "int \<Rightarrow> position_info option"
  get_pool_address :: "string \<Rightarrow> string \<Rightarrow> int \<Rightarrow> string option"
  get_pool_price :: "string \<Rightarrow> pool_price_info option"

text \<open>The computation of \<open>is_position_in_range\<close> once the position and the pool price
  are fetched. \<open>/\<close> on Python ints is true division.\<close>

definition range_info_of :: "position_info \<Rightarrow> pool_price_info \<Rightarrow> range_info" where
  "range_info_of position_info pool_price_info =
     (let current_tick = pp_current_tick pool_price_info;
          tick_lower = pi_tick_lower position_info;
          tick_upper = pi_tick_upper position_info;
          current_price = pp_price pool_price_info;
          in_range = (tick_lower \<le> current_tick \<and> current_tick \<le> tick_upper);
          total_range = tick_upper - tick_lower;
          (position_ratio, range_utilization, tick_deviation) =
            (if total_range > 0 then
               (let distance_from_lower = current_tick - tick_lower;
                    distance_from_upper = tick_upper - current_tick;
                    position_ratio =
                      real_of_int (min distance_from_lower distance_from_upper)
                        / real_of_int total_range;
                    range_utilization = (if in_range then 1.0 - (2 * position_ratio) else 0.0);
                    range_center_tick = real_of_int (tick_lower + tick_upper) / 2;
                    tick_deviation =
                      \<bar>real_of_int current_tick - range_center_tick\<bar>
                        / (real_of_int total_range / 2)
                in (position_ratio, range_utilization, tick_deviation))
             else (0.0, 0.0, 0.0))
      in \<lparr> ri_in_range = in_range,
           ri_current_tick = current_tick,
           ri_tick_lower = tick_lower,
           ri_tick_upper = tick_upper,
           ri_position_ratio = position_ratio,
           ri_range_utilization = range_utilization,
           ri_tick_deviation = tick_deviation,
           ri_current_price = current_price,
           ri_lower_price = tick_to_price tick_lower,
           ri_upper_price = tick_to_price tick_upper,
           ri_volatility = pp_volatility pool_price_info,
           ri_liquidity = pi_liquidity position_info \<rparr>)"

definition is_position_in_range :: "chain_view \<Rightarrow> int \<Rightarrow> range_info option" where
  "is_position_in_range chain token_id =
     (case get_position_info chain token_id of
        None \<Rightarrow> None
      | Some position_info \<Rightarrow>
          (case get_pool_address chain (pi_token0 position_info) (pi_token1 position_info)
                  (pi_fee position_info) of
             None \<Rightarrow> None
           | Some pool_address \<Rightarrow>
               (case get_pool_price chain pool_address of
                  None \<Rightarrow> None
                | Some pool_price_info \<Rightarrow> Some (range_info_of position_info pool_price_info))))"

section \<open>core/price_monitor.py\<close>

datatype urgency = HIGH | MEDIUM | LOW | NONE

text \<open>
  The dict returned by \<open>check_position_range_status\<close>. Its keys are \<open>token_id\<close>,
  \<open>status\<close>, \<open>urgency\<close>, \<open>in_range\<close>, \<open>position_ratio\<close> and \<open>range_info\<close>.
  \<open>analyze_position_health\<close> also reads the keys \<open>range_utilization\<close> and
  \<open>volatility\<close> with \<open>dict.get\<close> and a default; the two optional fields stand for
  them, \<open>None\<close> when the key is absent.
\<close>

record range_status =
  rs_token_id :: int
  rs_status :: string
  rs_urgency :: urgency
  rs_in_range :: bool
  rs_position_ratio :: real
  rs_range_info :: range_info
  rs_range_utilization :: "real option"
  rs_volatility :: "real option"

definition check_position_range_status :: "chain_view \<Rightarrow> int \<Rightarrow> range_status option" where
  "check_position_range_status chain token_id =
     (case is_position_in_range chain token_id of
        None \<Rightarrow> None
      | Some range_info \<Rightarrow>
          (let in_range = ri_in_range range_info;
               position_ratio = ri_position_ratio range_info;
               (status, urg) =
                 (if \<not> in_range then (''OUT_OF_RANGE'', HIGH)
                  else if position_ratio < 0.1 then (''APPROACHING_EDGE'', MEDIUM)
                  else if position_ratio < 0.2 then (''NEAR_EDGE'', LOW)
                  else (''SAFE'', NONE))
           in Some \<lparr> rs_token_id = token_id,
                     rs_status = status,
                     rs_urgency = urg,
                     rs_in_range = in_range,
                     rs_position_ratio = position_ratio,
                     rs_range_info = range_info,
                     rs_range_utilization = None,
                     rs_volatility = None \<rparr>))"

section \<open>core/rebalancer.py: position health\<close>

text \<open>
  The reason strings of \<open>analyze_position_health\<close>, in the order of its branches:
  the empty string, "Position completely out of range", "Position too close to edge
  (ratio: r)" with the ratio, "Position has zero liquidity", "Range too wide, low fee
  efficiency", "High volatility detected, preemptive rebalancing".
\<close>

datatype rebalance_reason =
    NoReason
  | OutOfRange
  | TooCloseToEdge real
  | ZeroLiquidity
  | RangeTooWide
  | HighVolatility

text \<open>\<open>dict.get(key, default)\<close> on an optional field.\<close>

definition dict_get :: "'a option \<Rightarrow> 'a \<Rightarrow> 'a" where
  "dict_get field dflt = (case field of None \<Rightarrow> dflt | Some v \<Rightarrow> v)"

definition calculate_enhanced_health_score :: "range_status \<Rightarrow> int \<Rightarrow> real" where
  "calculate_enhanced_health_score range_status liquidity =
     (if \<not> rs_in_range range_status then 0.0
      else if liquidity = 0 then 0.0
      else
        let position_ratio = rs_position_ratio range_status;
            base_score = position_ratio * 100;
            range_utilization = dict_get (rs_range_utilization range_status) 0.5;
            utilization_bonus = range_utilization * 20;
            volatility = dict_get (rs_volatility range_status) 0.0;
            volatility_penalty = (if volatility > 3.0 then min (volatility - 3.0) 10.0 else 0);
            final_score = base_score + utilization_bonus - volatility_penalty
        in max 0.0 (min 100.0 final_score))"

text \<open>The dict returned by \<open>analyze_position_health\<close>. The per-position metrics it also
  stores (last check time, accumulated in-range time) do not enter the classification and
  are left out.\<close>

record health_analysis =
  ha_token_id :: int
  ha_needs_rebalance :: bool
  ha_reason :: rebalance_reason
  ha_urgency :: urgency
  ha_range_status :: range_status
  ha_position_info :: position_info
  ha_token0_balance :: real
  ha_token1_balance :: real
  ha_health_score :: real

text \<open>
  The classification of \<open>analyze_position_health\<close>: the \<open>if\<close>/\<open>elif\<close> chain in the
  order of the source, starting from \<open>needs_rebalance = False\<close>, an empty reason and the
  urgency "LOW". \<open>self_rebalance_threshold\<close> is the rebalancer's attribute
  \<open>rebalance_threshold\<close>, the configured percentage divided by 100.
\<close>

definition classify_health ::
  "real \<Rightarrow> range_status \<Rightarrow> int \<Rightarrow> bool \<times> rebalance_reason \<times> urgency" where
  "classify_health self_rebalance_threshold range_status liquidity =
     (if \<not> rs_in_range range_status then (True, OutOfRange, HIGH)
      else if rs_position_ratio range_status < self_rebalance_threshold
        then (True, TooCloseToEdge (rs_position_ratio range_status), MEDIUM)
      else if liquidity = 0 then (True, ZeroLiquidity, HIGH)
      else if dict_get (rs_range_utilization range_status) 1.0 < 0.3 then (True, RangeTooWide, LOW)
      else if dict_get (rs_volatility range_status) 0.0 > 5.0
              \<and> rs_position_ratio range_status < 0.3 then (True, HighVolatility, MEDIUM)
      else (False, NoReason, LOW))"

text \<open>
  \<open>analyze_position_health(token_id)\<close>. \<open>balance_of\<close> is \<open>wallet.get_balance\<close>, which
  returns 0.0 instead of raising.
\<close>

definition analyze_position_health ::
  "bot_config \<Rightarrow> chain_view \<Rightarrow> (string \<Rightarrow> real) \<Rightarrow> int \<Rightarrow> health_analysis option" where
  "analyze_position_health config chain balance_of token_id =
     (case check_position_range_status chain token_id of
        None \<Rightarrow> None
      | Some range_status \<Rightarrow>
          (case get_position_info chain token_id of
             None \<Rightarrow> None
           | Some position_info \<Rightarrow>
               (let liquidity = pi_liquidity position_info;
                    token0_balance = balance_of (pi_token0 position_info);
                    token1_balance = balance_of (pi_token1 position_info);
                    (needs_rebalance, rebalance_reason, rebalance_urgency) =
                      classify_health (rebalance_threshold config / 100) range_status liquidity;
                    health_score = calculate_enhanced_health_score range_status liquidity
                in Some \<lparr> ha_token_id = token_id,
                          ha_needs_rebalance = needs_rebalance,
                          ha_reason = rebalance_reason,
                          ha_urgency = rebalance_urgency,
                          ha_range_status = range_status,
                          ha_position_info = position_info,
                          ha_token0_balance = token0_balance,
                          ha_token1_balance = token1_balance,
                          ha_health_score = health_score \<rparr>)))"

section \<open>core/rebalancer.py: portfolio balancing\<close>

text \<open>
  What \<open>auto_balance_portfolio\<close> decides before it touches the chain: one of its early
  \<open>return False\<close> exits (gas balance too low, no pool, no price, no balances, or an
  exception: the division raises ZeroDivisionError for a zero price), \<open>return True\<close>
  with "Portfolio already balanced", or the call of \<open>_execute_celo_optimized_swap\<close>
  with its token-in, token-out and amount.
\<close>

datatype balance_outcome =
    InsufficientGas
  | NoPool
  | NoPrice
  | NoBalances
  | Raised
  | AlreadyBalanced
  | NeedSwap string string real

definition auto_balance_decision ::
  "bot_config \<Rightarrow> real \<Rightarrow> real \<Rightarrow> real \<Rightarrow> string option \<Rightarrow> real option \<Rightarrow> real
     \<Rightarrow> balance_outcome" where
  "auto_balance_decision config token0_balance token1_balance gas_balance pool_address
       price_info target_ratio =
     (if gas_balance < min_gas_balance config then InsufficientGas
      else
        (case pool_address of
           None \<Rightarrow> NoPool
         | Some pool \<Rightarrow>
             (case price_info of
                None \<Rightarrow> NoPrice
              | Some current_price \<Rightarrow>
                  (let total_value_token1 = token1_balance + (token0_balance * current_price) in
                   if total_value_token1 = 0 then NoBalances
                   else if current_price = 0 then Raised
                   else
                     let target_token1_value = total_value_token1 * target_ratio;
                         target_token0_value = total_value_token1 * (1 - target_ratio);
                         target_token0_amount = target_token0_value / current_price;
                         token0_diff = target_token0_amount - token0_balance;
                         token1_diff = target_token1_value - token1_balance;
                         swap_threshold = 0.01
                     in if \<bar>token0_diff\<bar> < swap_threshold \<and> \<bar>token1_diff\<bar> < swap_threshold
                        then AlreadyBalanced
                        else if token0_diff > 0 then
                          (let swap_amount = \<bar>token1_diff\<bar> * 0.80
                           in NeedSwap (token1_address config) (token0_address config) swap_amount)
                        else
                          (let swap_amount = \<bar>token0_diff\<bar> * 0.80
                           in NeedSwap (token0_address config) (token1_address config)
                                swap_amount)))))"

section \<open>core/rebalancer.py: the retrying swap\<close>

text \<open>
  The collaborators of the rebalancer, over a state \<open>'w\<close> of the outside world (chain and
  wallet). \<open>wallet.get_balance\<close> and \<open>wallet.get_token_info\<close> catch their exceptions
  and return a default, \<open>wallet.approve_token\<close> returns a bool; \<open>uniswap.swap_tokens\<close>
  returns a transaction hash or \<open>None\<close>, and is allowed to raise here, since
  \<open>_execute_swap_with_slippage\<close> wraps the call in \<open>try\<close>/\<open>except\<close>.
\<close>

record 'w rebalancer_env =
  wallet_balance :: "string \<Rightarrow> 'w \<Rightarrow> real"
  wallet_gas_balance :: "'w \<Rightarrow> real"
  token_decimals :: "string \<Rightarrow> 'w \<Rightarrow> nat"
  approve_token :: "string \<Rightarrow> string \<Rightarrow> int \<Rightarrow> 'w \<Rightarrow> bool \<times> 'w"
  router_address :: string
  uniswap_swap_tokens ::
    "string \<Rightarrow> string \<Rightarrow> int \<Rightarrow> int \<Rightarrow> int \<Rightarrow> 'w \<Rightarrow> (py_error + string option) \<times> 'w"
  pool_address_of :: "string \<Rightarrow> string \<Rightarrow> int \<Rightarrow> 'w \<Rightarrow> string option"
  current_price_of :: "string \<Rightarrow> 'w \<Rightarrow> real option \<times> 'w"
  sleep :: "nat \<Rightarrow> 'w \<Rightarrow> 'w"

definition CELO_SLIPPAGE :: real where "CELO_SLIPPAGE = 4.0"
definition MAX_RETRIES :: nat where "MAX_RETRIES = 3"

text \<open>Python truthiness of an optional string: \<open>None\<close> and the empty string are false.\<close>

definition truthy :: "string option \<Rightarrow> bool" where
  "truthy r = (case r of None \<Rightarrow> False | Some h \<Rightarrow> h \<noteq> [])"

text \<open>\<open>_execute_swap_with_slippage\<close>: one attempt. Any exception gives \<open>False\<close>.\<close>

definition execute_swap_with_slippage ::
  "'w rebalancer_env \<Rightarrow> bot_config \<Rightarrow> string \<Rightarrow> string \<Rightarrow> int \<Rightarrow> real \<Rightarrow> nat \<Rightarrow> 'w
     \<Rightarrow> bool \<times> 'w" where
  "execute_swap_with_slippage env config token_in token_out amount_wei slippage_percent attempt w =
     (let min_amount_out = py_int (real_of_int amount_wei * (100 - slippage_percent) / 100)
      in case uniswap_swap_tokens env token_in token_out amount_wei (pool_fee config)
                min_amount_out w of
           (Inl e, w1) \<Rightarrow> (False, w1)
         | (Inr tx_hash, w1) \<Rightarrow> (if truthy tx_hash then (True, w1) else (False, w1)))"

text \<open>The slippage tolerance of attempt \<open>attempt\<close> (0-indexed).\<close>

definition attempt_slippage :: "nat \<Rightarrow> real" where
  "attempt_slippage attempt = CELO_SLIPPAGE + (real attempt * 2.0)"

text \<open>
  The loop \<open>for attempt in range(self.MAX_RETRIES)\<close> of \<open>_execute_celo_optimized_swap\<close>,
  over the attempts that remain. Besides the result and the new state it returns the
  attempts it made, each with its slippage tolerance, in order. Falling out of the loop is
  "All swap attempts failed", \<open>return False\<close>.
\<close>

fun retry_swap_loop ::
  "'w rebalancer_env \<Rightarrow> bot_config \<Rightarrow> string \<Rightarrow> string \<Rightarrow> int \<Rightarrow> nat list \<Rightarrow> 'w
     \<Rightarrow> bool \<times> (nat \<times> real) list \<times> 'w" where
  "retry_swap_loop env config token_in token_out amount_with_decimals [] w = (False, [], w)"
| "retry_swap_loop env config token_in token_out amount_with_decimals (attempt # rest) w =
     (case execute_swap_with_slippage env config token_in token_out amount_with_decimals
             (attempt_slippage attempt) attempt w of
        (success, w1) \<Rightarrow>
          if success then (True, [(attempt, attempt_slippage attempt)], sleep env 5 w1)
          else
            (let w2 = (if attempt < MAX_RETRIES - 1 then sleep env (10 + (attempt * 5)) w1 else w1)
             in case retry_swap_loop env config token_in token_out amount_with_decimals rest w2 of
                  (result, attempts, w3) \<Rightarrow>
                    (result, (attempt, attempt_slippage attempt) # attempts, w3)))"

text \<open>\<open>_execute_celo_optimized_swap(token_in, token_out, amount, reason)\<close>: the balance
  check and the approval, then the retry loop.\<close>

definition execute_celo_optimized_swap ::
  "'w rebalancer_env \<Rightarrow> bot_config \<Rightarrow> string \<Rightarrow> string \<Rightarrow> real \<Rightarrow> 'w
     \<Rightarrow> bool \<times> (nat \<times> real) list \<times> 'w" where
  "execute_celo_optimized_swap env config token_in token_out amount w =
     (let amount_with_decimals = py_int (amount * (10 ^ token_decimals env token_in w));
          current_balance = wallet_balance env token_in w
      in if current_balance < amount then (False, [], w)
         else
           (case approve_token env token_in (router_address env) (amount_with_decimals * 2) w of
              (approved, w1) \<Rightarrow>
                if \<not> approved then (False, [], w1)
                else retry_swap_loop env config token_in token_out amount_with_decimals
                       [0..<MAX_RETRIES] w1))"

text \<open>\<open>auto_balance_portfolio(target_ratio)\<close>: the reads, the decision, and the swap
  when one is needed.\<close>

definition auto_balance_portfolio ::
  "'w rebalancer_env \<Rightarrow> bot_config \<Rightarrow> real \<Rightarrow> 'w \<Rightarrow> bool \<times> 'w" where
  "auto_balance_portfolio env config target_ratio w =
     (let token0_balance = wallet_balance env (token0_address config) w;
          token1_balance = wallet_balance env (token1_address config) w;
          gas_balance = wallet_gas_balance env w;
          pool_address = pool_address_of env (token0_address config) (token1_address config)
                           (pool_fee config) w;
          (price_info, w1) =
            (if gas_balance < min_gas_balance config then (None, w)
             else case pool_address of
                    None \<Rightarrow> (None, w)
                  | Some pool \<Rightarrow> current_price_of env pool w)
      in case auto_balance_decision config token0_balance token1_balance gas_balance
                pool_address price_info target_ratio of
           AlreadyBalanced \<Rightarrow> (True, w1)
         | NeedSwap token_in token_out swap_amount \<Rightarrow>
             (case execute_celo_optimized_swap env config token_in token_out swap_amount w1 of
                (result, attempts, w2) \<Rightarrow> (result, w2))
         | _ \<Rightarrow> (False, w1))"

section \<open>core/rebalancer.py: executing a plan\<close>

text \<open>The dataclass \<open>RebalanceAction\<close>.\<close>

record rebalance_action =
  action_type :: string
  ra_token_id :: "int option"
  ra_token_in :: "string option"
  ra_token_out :: "string option"
  ra_amount :: "real option"
  ra_new_range :: "(int \<times> int) option"
  ra_reason :: string
  priority :: int

text \<open>
  The loop of \<open>execute_rebalance_plan\<close> over the actions that remain.
  \<open>execute_single_action\<close> is \<open>_execute_single_action\<close>, which catches every exception
  and returns a bool; \<open>pause\<close> is \<open>time.sleep\<close>. Besides the result and the new state
  the loop returns the actions it executed, each with its success, in order. The wait of
  20 seconds follows a successful action that is not the last one.
\<close>

fun run_actions ::
  "(rebalance_action \<Rightarrow> 'w \<Rightarrow> bool \<times> 'w) \<Rightarrow> (nat \<Rightarrow> 'w \<Rightarrow> 'w) \<Rightarrow> rebalance_action list \<Rightarrow> 'w
     \<Rightarrow> bool \<times> (rebalance_action \<times> bool) list \<times> 'w" where
  "run_actions execute_single_action pause [] w = (True, [], w)"
| "run_actions execute_single_action pause (action # rest) w =
     (case execute_single_action action w of
        (success, w1) \<Rightarrow>
          if \<not> success then
            (if priority action = 1 then (False, [(action, False)], w1)
             else
               (case run_actions execute_single_action pause rest w1 of
                  (result, executed, w2) \<Rightarrow> (result, (action, False) # executed, w2)))
          else
            (let w2 = (if rest \<noteq> [] then pause 20 w1 else w1)
             in case run_actions execute_single_action pause rest w2 of
                  (result, executed, w3) \<Rightarrow> (result, (action, True) # executed, w3)))"

text \<open>
  For stating what the loop does: the answers of \<open>_execute_single_action\<close> to the
  actions of a list when all of them are executed in order, with the waits of the loop and
  with no action stopping the run. An entry lets the run proceed when the action succeeded
  or its priority is not 1.
\<close>

fun action_outcomes ::
  "(rebalance_action \<Rightarrow> 'w \<Rightarrow> bool \<times> 'w) \<Rightarrow> (nat \<Rightarrow> 'w \<Rightarrow> 'w) \<Rightarrow> rebalance_action list \<Rightarrow> 'w
     \<Rightarrow> (rebalance_action \<times> bool) list" where
  "action_outcomes execute_single_action pause [] w = []"
| "action_outcomes execute_single_action pause (action # rest) w =
     (case execute_single_action action w of
        (success, w1) \<Rightarrow>
          (action, success)
            # action_outcomes execute_single_action pause rest
                (if success \<and> rest \<noteq> [] then pause 20 w1 else w1))"

definition proceeds :: "rebalance_action \<times> bool \<Rightarrow> bool" where
  "proceeds outcome = (snd outcome \<or> priority (fst outcome) \<noteq> 1)"

text \<open>\<open>execute_rebalance_plan(actions)\<close>: \<open>actions.sort(key=lambda x: x.priority)\<close> is a
  stable sort, as \<open>sort_key\<close> is; then the loop.\<close>

definition execute_rebalance_plan ::
  "(rebalance_action \<Rightarrow> 'w \<Rightarrow> bool \<times> 'w) \<Rightarrow> (nat \<Rightarrow> 'w \<Rightarrow> 'w) \<Rightarrow> rebalance_action list \<Rightarrow> 'w
     \<Rightarrow> bool \<times> (rebalance_action \<times> bool) list \<times> 'w" where
  "execute_rebalance_plan execute_single_action pause actions w =
     run_actions execute_single_action pause (sort_key priority actions) w"

section \<open>core/uniswap.py: swaps and position removal\<close>

text \<open>The parameter tuples of the router's \<open>exactInputSingle\<close> and of the position
  manager's \<open>decreaseLiquidity\<close> and \<open>collect\<close>, and a built transaction.\<close>

record swap_params =
  sp_token_in :: string
  sp_token_out :: string
  sp_fee :: int
  sp_recipient :: string
  sp_deadline :: int
  sp_amount_in :: int
  sp_amount_out_minimum :: int
  sp_sqrt_price_limit_x96 :: int

record decrease_params =
  dp_token_id :: int
  dp_liquidity :: int
  dp_amount0_min :: int
  dp_amount1_min :: int
  dp_deadline :: int

record collect_params =
  cp_token_id :: int
  cp_recipient :: string
  cp_amount0_max :: int
  cp_amount1_max :: int

datatype contract_call =
    ExactInputSingle swap_params
  | DecreaseLiquidity decrease_params
  | Collect collect_params

record transaction =
  tx_contract :: string
  tx_call :: contract_call
  tx_from :: string
  tx_gas :: int
  tx_gas_price :: int
  tx_nonce :: int

text \<open>
  The collaborators of \<open>UniswapV3Manager\<close>, over the same state of the outside world.
  \<open>to_checksum_address\<close> is \<open>None\<close> where \<open>Web3.to_checksum_address\<close> raises;
  \<open>latest_block_timestamp\<close> is \<open>w3.eth.get_block('latest')['timestamp']\<close>;
  \<open>next_nonce\<close> is the wallet's \<open>_get_next_nonce\<close>; \<open>build_ok\<close> is false where
  \<open>build_transaction\<close> raises; \<open>send_transaction\<close> and \<open>wait_for_transaction\<close> are
  the wallet's, which catch their exceptions; \<open>view\<close> gives the reads of the chain in the
  current state.
\<close>

record 'w uniswap_env =
  to_checksum_address :: "string \<Rightarrow> string option"
  uniswap_v3_router :: string
  position_manager :: string
  account_address :: string
  latest_block_timestamp :: "'w \<Rightarrow> py_error + int"
  next_nonce :: "'w \<Rightarrow> (py_error + int) \<times> 'w"
  build_ok :: "contract_call \<Rightarrow> 'w \<Rightarrow> bool"
  send_transaction :: "transaction \<Rightarrow> 'w \<Rightarrow> string option \<times> 'w"
  wait_for_transaction :: "string \<Rightarrow> nat \<Rightarrow> 'w \<Rightarrow> bool \<times> 'w"
  view :: "'w \<Rightarrow> chain_view"

definition CELO_GAS_MULTIPLIER :: real where "CELO_GAS_MULTIPLIER = 1.8"

text \<open>
  \<open>self.wallet._get_celo_gas_price()\<close>. The wallet that main.py hands to
  \<open>UniswapV3Manager\<close> is a \<open>WalletManager\<close>, and the class in core/wallet.py defines
  \<open>_get_gas_price\<close> but no \<open>_get_celo_gas_price\<close> (the only method of that name belongs
  to \<open>CeloTransactionFixer\<close>): the attribute lookup raises AttributeError.
\<close>

definition wallet_get_celo_gas_price :: "py_error + int" where
  "wallet_get_celo_gas_price = Inl AttributeError"

text \<open>\<open>str.lower()\<close> on the ASCII letters of an address.\<close>

definition lower_char :: "char \<Rightarrow> char" where
  "lower_char c =
     (let n = (of_char c :: nat) in if 65 \<le> n \<and> n \<le> 90 then char_of (n + 32) else c)"

definition str_lower :: "string \<Rightarrow> string" where
  "str_lower s = map lower_char s"

definition validate_swap_params ::
  "'w uniswap_env \<Rightarrow> string \<Rightarrow> string \<Rightarrow> int \<Rightarrow> int \<Rightarrow> bool" where
  "validate_swap_params env token_in token_out amount_in fee =
     (case to_checksum_address env token_in of
        None \<Rightarrow> False
      | Some a \<Rightarrow>
          (case to_checksum_address env token_out of
             None \<Rightarrow> False
           | Some b \<Rightarrow>
               if str_lower token_in = str_lower token_out then False
               else if amount_in \<le> 0 then False
               else if fee \<notin> set [100, 500, 3000, 10000] then False
               else True))"

text \<open>
  Build, send and await one transaction: the dict passed to \<open>build_transaction\<close> is
  evaluated first (gas price, then nonce), then the transaction is built, sent and
  awaited. The result is whether \<open>tx_hash and wait_for_transaction(tx_hash, timeout)\<close>
  held, with the hash, the transactions handed to \<open>send_transaction\<close>, and the new state.
  \<open>None\<close> for the hash stands for an exception before the send or a failed send: the
  callers catch every exception. The exception of the gas price comes before the nonce is
  taken, so it leaves the state as it was.
\<close>

definition submit_call ::
  "'w uniswap_env \<Rightarrow> string \<Rightarrow> contract_call \<Rightarrow> int \<Rightarrow> nat \<Rightarrow> 'w
     \<Rightarrow> string option \<times> transaction list \<times> 'w" where
  "submit_call env contract call gas timeout w =
     (case wallet_get_celo_gas_price of
        Inl e \<Rightarrow> (None, [], w)
      | Inr gas_price \<Rightarrow>
          (case next_nonce env w of
             (Inl e, w1) \<Rightarrow> (None, [], w1)
           | (Inr nonce, w1) \<Rightarrow>
               if \<not> build_ok env call w1 then (None, [], w1)
               else
                 (let transaction =
                        \<lparr> tx_contract = contract, tx_call = call,
                          tx_from = account_address env, tx_gas = gas,
                          tx_gas_price = gas_price, tx_nonce = nonce \<rparr>
                  in case send_transaction env transaction w1 of
                       (tx_hash, w2) \<Rightarrow>
                         if truthy tx_hash then
                           (case wait_for_transaction env (the tx_hash) timeout w2 of
                              (confirmed, w3) \<Rightarrow>
                                if confirmed then (tx_hash, [transaction], w3)
                                else (None, [transaction], w3))
                         else (None, [transaction], w2))))"

text \<open>\<open>swap_tokens(token_in, token_out, amount_in, fee, min_amount_out)\<close>. It returns
  the transaction hash or \<open>None\<close>; the model returns also the transactions it handed to
  \<open>send_transaction\<close> and the new state.\<close>

definition swap_tokens ::
  "float_math \<Rightarrow> 'w uniswap_env \<Rightarrow> string \<Rightarrow> string \<Rightarrow> int \<Rightarrow> int \<Rightarrow> int \<Rightarrow> 'w
     \<Rightarrow> string option \<times> transaction list \<times> 'w" where
  "swap_tokens fm env token_in token_out amount_in fee min_amount_out w =
     (if \<not> validate_swap_params env token_in token_out amount_in fee then (None, [], w)
      else
        (case to_checksum_address env (uniswap_v3_router env) of
           None \<Rightarrow> (None, [], w)
         | Some router \<Rightarrow>
             (case latest_block_timestamp env w of
                Inl e \<Rightarrow> (None, [], w)
              | Inr timestamp \<Rightarrow>
                  (let deadline = timestamp + 900;
                       min_amount_out1 =
                         (if min_amount_out = 0 then
                            (let celo_slippage = fl_lit fm 0.05
                             in py_int (fl_mul fm (fl_of_int fm amount_in)
                                          (fl_sub fm 1 celo_slippage)))
                          else min_amount_out)
                   in case (to_checksum_address env token_in,
                            to_checksum_address env token_out) of
                        (Some checksum_in, Some checksum_out) \<Rightarrow>
                          (let swap_params =
                                 \<lparr> sp_token_in = checksum_in,
                                   sp_token_out = checksum_out,
                                   sp_fee = fee,
                                   sp_recipient = account_address env,
                                   sp_deadline = deadline,
                                   sp_amount_in = amount_in,
                                   sp_amount_out_minimum = min_amount_out1,
                                   sp_sqrt_price_limit_x96 = 0 \<rparr>;
                               base_gas = 400000;
                               final_gas = py_int (base_gas * CELO_GAS_MULTIPLIER)
                           in submit_call env router (ExactInputSingle swap_params)
                                final_gas 300 w)
                      | _ \<Rightarrow> (None, [], w)))))"

text \<open>\<open>_collect_position_fees(token_id)\<close>.\<close>

definition collect_position_fees ::
  "'w uniswap_env \<Rightarrow> int \<Rightarrow> 'w \<Rightarrow> bool \<times> transaction list \<times> 'w" where
  "collect_position_fees env token_id w =
     (case to_checksum_address env (position_manager env) of
        None \<Rightarrow> (False, [], w)
      | Some manager \<Rightarrow>
          (let collect_params =
                 \<lparr> cp_token_id = token_id,
                   cp_recipient = account_address env,
                   cp_amount0_max = 2 ^ 128 - 1,
                   cp_amount1_max = 2 ^ 128 - 1 \<rparr>
           in case submit_call env manager (Collect collect_params)
                     (py_int (300000 * CELO_GAS_MULTIPLIER)) 180 w of
                (tx_hash, sent, w1) \<Rightarrow> (tx_hash \<noteq> None, sent, w1)))"

text \<open>\<open>remove_position(token_id)\<close>. It returns a bool; the model returns also the
  transactions it handed to \<open>send_transaction\<close> and the new state.\<close>

definition remove_position ::
  "'w uniswap_env \<Rightarrow> int \<Rightarrow> 'w \<Rightarrow> bool \<times> transaction list \<times> 'w" where
  "remove_position env token_id w =
     (case get_position_info (view env w) token_id of
        None \<Rightarrow> (False, [], w)
      | Some position_info \<Rightarrow>
          (let liquidity = pi_liquidity position_info in
           if liquidity = 0 then (True, [], w)
           else
             (case to_checksum_address env (position_manager env) of
                None \<Rightarrow> (False, [], w)
              | Some manager \<Rightarrow>
                  (case latest_block_timestamp env w of
                     Inl e \<Rightarrow> (False, [], w)
                   | Inr timestamp \<Rightarrow>
                       (let deadline = timestamp + 600;
                            decrease_params =
                              \<lparr> dp_token_id = token_id,
                                dp_liquidity = liquidity,
                                dp_amount0_min = 0,
                                dp_amount1_min = 0,
                                dp_deadline = deadline \<rparr>
                        in case submit_call env manager (DecreaseLiquidity decrease_params)
                                  (py_int (600000 * CELO_GAS_MULTIPLIER)) 300 w of
                             (tx_hash, sent, w1) \<Rightarrow>
                               if tx_hash \<noteq> None then
                                 (case collect_position_fees env token_id w1 of
                                    (collected, sent1, w2) \<Rightarrow> (True, sent @ sent1, w2))
                               else (False, sent, w1))))))"

section \<open>Example inputs\<close>

text \<open>The defaults of \<open>BotConfig\<close> in config/settings.py, token addresses apart.\<close>

definition default_config :: bot_config where
  "default_config =
     \<lparr> price_range_percent = 5.0,
       min_price_range_percent = 1.0,
       max_price_range_percent = 20.0,
       dynamic_range = True,
       volatility_multiplier = 1.5,
       rebalance_threshold = 80.0,
       token0_address = ''0xA'',
       token1_address = ''0xB'',
       pool_fee = 3000,
       max_slippage = 0.5,
       min_gas_balance = 0.01,
       range_calculation_method = ''adaptive'',
       range_buffer_percent = 10.0,
       check_interval = 30 \<rparr>"

text \<open>A position on the ticks 10 to 20, a pool at a given tick, and a chain that holds
  exactly this position and this pool.\<close>

definition example_position :: position_info where
  "example_position =
     \<lparr> pi_token_id = 1, pi_token0 = ''0xA'', pi_token1 = ''0xB'', pi_fee = 3000,
       pi_tick_lower = 10, pi_tick_upper = 20, pi_liquidity = 1000,
       pi_tokens_owed0 = 0, pi_tokens_owed1 = 0 \<rparr>"

definition example_pool :: "int \<Rightarrow> pool_price_info" where
  "example_pool t =
     \<lparr> pp_sqrt_price_x96 = 1, pp_current_tick = t, pp_price = 1, pp_volatility = 0 \<rparr>"

definition example_chain :: "position_info \<Rightarrow> pool_price_info \<Rightarrow> chain_view" where
  "example_chain pos pool =
     \<lparr> get_position_info = (\<lambda>token_id. if token_id = pi_token_id pos then Some pos else None),
       get_pool_address = (\<lambda>a b f. Some ''0xP''),
       get_pool_price = (\<lambda>a. if a = ''0xP'' then Some pool else None) \<rparr>"

text \<open>A position on the ticks 0 to 100 that holds no liquidity.\<close>

definition zero_liquidity_position :: position_info where
  "zero_liquidity_position =
     example_position\<lparr>pi_tick_lower := 0, pi_tick_upper := 100, pi_liquidity := 0\<rparr>"



text \<open>An action of a given type and priority; an executor of single actions that fails on
  the actions of one type and counts the seconds of the run in its state; a plan of three
  actions.\<close>

definition example_action :: "string \<Rightarrow> int \<Rightarrow> rebalance_action" where
  "example_action kind p =
     \<lparr> action_type = kind, ra_token_id = None, ra_token_in = None, ra_token_out = None,
       ra_amount = None, ra_new_range = None, ra_reason = '''', priority = p \<rparr>"

definition failing_on :: "string \<Rightarrow> rebalance_action \<Rightarrow> nat \<Rightarrow> bool \<times> nat" where
  "failing_on kind action w = (action_type action \<noteq> kind, Suc w)"

definition example_plan :: "rebalance_action list" where
  "example_plan =
     [example_action ''create_position'' 2, example_action ''close_position'' 1,
      example_action ''auto_balance'' 2]"

text \<open>A wallet and node on which every call the environment answers succeeds, over a given
  view of the chain; the state of the world is the next nonce.\<close>

definition example_uniswap_env :: "chain_view \<Rightarrow> nat uniswap_env" where
  "example_uniswap_env chain =
     \<lparr> to_checksum_address = (\<lambda>address. if address = [] then None else Some address),
       uniswap_v3_router = ''0xR'',
       position_manager = ''0xM'',
       account_address = ''0xW'',
       latest_block_timestamp = (\<lambda>w. Inr 1000),
       next_nonce = (\<lambda>w. (Inr (int w), Suc w)),
       build_ok = (\<lambda>call w. True),
       send_transaction = (\<lambda>tx w. (Some ''0xH'', w)),
       wait_for_transaction = (\<lambda>tx_hash timeout w. (True, w)),
       view = (\<lambda>w. chain) \<rparr>"



section \<open>Verified properties\<close>

subsection \<open>Tick conversion and tick ranges\<close>

lemma round_tick_bounds_valid:
  assumes "round_tick_bounds c u l s = Some (lower, upper)" and "0 < s"
  shows "lower < upper \<and> s dvd lower \<and> s dvd upper
         \<and> MIN_TICK \<le> lower \<and> upper \<le> MAX_TICK
         \<and> (if s = 1 then 30 else 2 * s) \<le> upper - lower"
  using assms
  by (auto simp: round_tick_bounds_def Let_def split: if_splits)

lemma exact_math_fields:
  "fl_lit exact_math x = x" "fl_of_int exact_math i = real_of_int i"
  "fl_add exact_math x y = x + y" "fl_sub exact_math x y = x - y"
  "fl_mul exact_math x y = x * y" "fl_div exact_math x y = x / y"
  "fl_log exact_math x = ln x"
  by (simp_all add: exact_math_def)

lemma price_to_tick_pos:
  "0 < p \<Longrightarrow> price_to_tick fm (Finite p) = Inr (py_int (log_quotient fm p))"
  by (simp add: price_to_tick_def log_quotient_def)

lemma exact_log_quotient: "log_quotient exact_math p = ln p / ln 1.0001"
  by (simp add: log_quotient_def exact_math_fields)

lemma price_to_tick_one: "price_to_tick exact_math (Finite 1) = Inr 0"
  by (simp add: price_to_tick_pos exact_log_quotient py_int_def)

lemma price_to_tick_base: "price_to_tick exact_math (Finite 1.0001) = Inr 1"
  by (simp add: price_to_tick_pos exact_log_quotient py_int_def)

lemma price_to_tick_inverse_base: "price_to_tick exact_math (Finite (1 / 1.0001)) = Inr (-1)"
proof -
  have "ln (1 / 1.0001 :: real) = - ln 1.0001"
    by (simp add: ln_div)
  moreover have "ln (1.0001::real) \<noteq> 0" by simp
  ultimately have "ln (1 / 1.0001 :: real) / ln 1.0001 = -1"
    by (simp add: divide_eq_minus_1_iff)
  then show ?thesis
    using price_to_tick_pos [of "1 / 1.0001" exact_math]
    by (simp add: exact_log_quotient py_int_def ceiling_eq_iff)
qed

lemma calculate_tick_range_example:
  "calculate_tick_range exact_math (Finite 1) (1/100) 60 = Some (-60, 60)"
proof -
  have "(1::real) * (1 + (1/100) / 100) = 1.0001" "(1::real) / (1 + (1/100) / 100) = 1 / 1.0001"
    by simp_all
  then show ?thesis
    using price_to_tick_one price_to_tick_base price_to_tick_inverse_base
    by (simp add: calculate_tick_range_def exact_math_fields round_tick_bounds_def
          MIN_TICK_def MAX_TICK_def Let_def)
qed

text \<open>
  C1. Whenever \<open>calculate_tick_range\<close> returns a tick pair for a positive spacing (it does
  so only for a positive finite price and a positive range percent), the pair satisfies
  \<open>lower < upper\<close>, both ticks are multiples of the spacing, both lie in
  \<open>[MIN_TICK, MAX_TICK]\<close>, and the width is at least 30 for spacing 1 and twice the
  spacing otherwise. The proof uses the integer part of the function only, so it holds for
  whatever ticks the float conversions produce, for every float arithmetic.
\<close>

theorem calculate_tick_range_valid:
  assumes "calculate_tick_range fm current_price range_percent tick_spacing = Some (lower, upper)"
    and "0 < tick_spacing"
  shows "lower < upper \<and> tick_spacing dvd lower \<and> tick_spacing dvd upper
         \<and> MIN_TICK \<le> lower \<and> lower \<le> MAX_TICK
         \<and> MIN_TICK \<le> upper \<and> upper \<le> MAX_TICK
         \<and> (if tick_spacing = 1 then 30 else 2 * tick_spacing) \<le> upper - lower
         \<and> \<not> le_zero current_price \<and> isfinite current_price \<and> 0 < range_percent"
proof -
  from assms(1) obtain c u l where "round_tick_bounds c u l tick_spacing = Some (lower, upper)"
    by (auto simp: calculate_tick_range_def Let_def split: if_splits pyfloat.splits sum.splits)
  from round_tick_bounds_valid [OF this assms(2)]
  have "lower < upper \<and> tick_spacing dvd lower \<and> tick_spacing dvd upper
         \<and> MIN_TICK \<le> lower \<and> lower \<le> MAX_TICK
         \<and> MIN_TICK \<le> upper \<and> upper \<le> MAX_TICK
         \<and> (if tick_spacing = 1 then 30 else 2 * tick_spacing) \<le> upper - lower"
    by auto
  moreover from assms(1) have "\<not> le_zero current_price \<and> isfinite current_price \<and> 0 < range_percent"
    by (auto simp: calculate_tick_range_def split: if_splits)
  ultimately show ?thesis by blast
qed

theorem calculate_tick_range_valid_witness:
  "calculate_tick_range exact_math (Finite 1) (1/100) 60 = Some (-60, 60) \<and> (0::int) < 60
   \<and> (-60::int) < 60 \<and> (60::int) dvd -60 \<and> (60::int) dvd 60
   \<and> MIN_TICK \<le> -60 \<and> -60 \<le> MAX_TICK \<and> MIN_TICK \<le> 60 \<and> 60 \<le> MAX_TICK
   \<and> (if (60::int) = 1 then 30 else 2 * 60) \<le> (60::int) - (-60)"
  using calculate_tick_range_valid [OF calculate_tick_range_example] calculate_tick_range_example
  by simp

lemma quotient_below_one_bounds:
  "-1 < ln (0.99995::real) / ln 1.0001 \<and> ln (0.99995::real) / ln 1.0001 < 0"
proof -
  have L: "0 < ln (1.0001::real)" by simp
  have "ln (1 / 1.0001 :: real) < ln 0.99995"
    by (subst ln_less_cancel_iff) simp_all
  then have "- ln (1.0001::real) < ln 0.99995"
    by (simp add: ln_div)
  then have a: "-1 < ln (0.99995::real) / ln 1.0001"
    using L by (simp add: pos_less_divide_eq)
  have "ln (0.99995::real) < 0" by simp
  then have b: "ln (0.99995::real) / ln 1.0001 < 0"
    using L by (simp add: divide_neg_pos)
  from a b show ?thesis by simp
qed

lemma quotient_below_one_lower: "- (3 / 4) < ln (0.99995::real) / ln 1.0001"
proof -
  have L: "0 < ln (1.0001::real)" by simp
  have "0 < ln ((0.99995::real) ^ 4 * 1.0001 ^ 3)"
    by (rule ln_gt_zero) (simp add: power_divide)
  also have "ln ((0.99995::real) ^ 4 * 1.0001 ^ 3) = 4 * ln 0.99995 + 3 * ln 1.0001"
    by (simp add: ln_mult ln_realpow)
  finally have "- (3 / 4) * ln (1.0001::real) < ln 0.99995" by simp
  then show ?thesis
    using L by (simp add: pos_less_divide_eq)
qed

lemma ceiling_quotient_below_one: "\<lceil>ln (0.99995::real) / ln 1.0001\<rceil> = 0"
  using quotient_below_one_bounds by (simp add: ceiling_eq_iff)

lemma floor_quotient_below_one: "\<lfloor>ln (0.99995::real) / ln 1.0001\<rfloor> = -1"
  using quotient_below_one_bounds by (simp add: floor_eq_iff)

text \<open>At the price 0.99995 every float arithmetic whose quotient is within a quarter of a
  tick of the exact quotient gives the tick 0.\<close>

lemma price_to_tick_below_one_any_rounding:
  assumes "\<bar>log_quotient fm 0.99995 - ln 0.99995 / ln 1.0001\<bar> \<le> 1 / 4"
  shows "price_to_tick fm (Finite 0.99995) = Inr 0"
proof -
  from assms quotient_below_one_bounds quotient_below_one_lower
  have "-1 < log_quotient fm 0.99995" "log_quotient fm 0.99995 < 1"
    by linarith+
  then have "py_int (log_quotient fm 0.99995) = 0"
    by (simp add: py_int_def floor_eq_iff ceiling_eq_iff)
  then show ?thesis
    using price_to_tick_pos [of "0.99995" fm] by simp
qed

text \<open>
  C3, as stated, fails: at the price 0.99995 the quotient \<open>ln(price)/ln(1.0001)\<close> lies
  strictly between -1 and 0 (near -0.5), its floor is -1, and \<open>price_to_tick\<close> returns 0,
  because \<open>int()\<close> truncates toward zero.
\<close>

theorem price_to_tick_floor_counterexample:
  "price_to_tick exact_math (Finite 0.99995) = Inr 0
   \<and> \<lfloor>ln (0.99995::real) / ln 1.0001\<rfloor> = -1"
  using quotient_below_one_bounds ceiling_quotient_below_one floor_quotient_below_one
    price_to_tick_pos [of "0.99995" exact_math]
  by (simp add: py_int_def exact_log_quotient)


text \<open>
  C3, amended. For every positive finite price and every float arithmetic,
  \<open>price_to_tick\<close> returns the float quotient \<open>math.log(price) / math.log(1.0001)\<close>
  truncated toward zero: its floor when the quotient is not negative, its ceiling when it is
  negative. In exact arithmetic that is the floor of \<open>ln(price)/ln(1.0001)\<close> for prices of
  at least 1 and its ceiling for prices below 1. For a finite price that is not positive, for
  \<open>-inf\<close> and for NaN it raises ValueError, for \<open>+inf\<close> it raises OverflowError, and
  \<open>calculate_tick_range\<close> returns no range for any of them.
\<close>

theorem price_to_tick_truncates:
  "(0 < p \<longrightarrow> price_to_tick fm (Finite p) = Inr (py_int (log_quotient fm p)))
   \<and> (0 < p \<and> 0 \<le> log_quotient fm p
        \<longrightarrow> price_to_tick fm (Finite p) = Inr \<lfloor>log_quotient fm p\<rfloor>)
   \<and> (0 < p \<and> log_quotient fm p < 0
        \<longrightarrow> price_to_tick fm (Finite p) = Inr \<lceil>log_quotient fm p\<rceil>)
   \<and> (1 \<le> p \<longrightarrow> price_to_tick exact_math (Finite p) = Inr \<lfloor>ln p / ln 1.0001\<rfloor>)
   \<and> (0 < p \<and> p < 1 \<longrightarrow> price_to_tick exact_math (Finite p) = Inr \<lceil>ln p / ln 1.0001\<rceil>)
   \<and> (p \<le> 0 \<longrightarrow> price_to_tick fm (Finite p) = Inl ValueError)
   \<and> price_to_tick fm NegInf = Inl ValueError
   \<and> price_to_tick fm NaN = Inl ValueError
   \<and> price_to_tick fm PosInf = Inl OverflowError
   \<and> (le_zero x \<or> \<not> isfinite x \<longrightarrow> calculate_tick_range fm x r s = None)"
proof -
  have L: "0 < ln (1.0001::real)" by simp
  have a: "0 < p \<longrightarrow> price_to_tick fm (Finite p) = Inr (py_int (log_quotient fm p))"
    by (simp add: price_to_tick_pos)
  have b: "0 < p \<and> 0 \<le> log_quotient fm p
        \<longrightarrow> price_to_tick fm (Finite p) = Inr \<lfloor>log_quotient fm p\<rfloor>"
    by (simp add: price_to_tick_pos py_int_def)
  have c: "0 < p \<and> log_quotient fm p < 0
        \<longrightarrow> price_to_tick fm (Finite p) = Inr \<lceil>log_quotient fm p\<rceil>"
    by (simp add: price_to_tick_pos py_int_def)
  have d: "1 \<le> p \<longrightarrow> price_to_tick exact_math (Finite p) = Inr \<lfloor>ln p / ln 1.0001\<rfloor>"
    using L by (simp add: price_to_tick_pos exact_log_quotient py_int_def)
  have e: "0 < p \<and> p < 1 \<longrightarrow> price_to_tick exact_math (Finite p) = Inr \<lceil>ln p / ln 1.0001\<rceil>"
  proof
    assume h: "0 < p \<and> p < 1"
    then have "ln p < 0" by simp
    then have "ln p / ln 1.0001 < 0" using L by (simp add: divide_neg_pos)
    then show "price_to_tick exact_math (Finite p) = Inr \<lceil>ln p / ln 1.0001\<rceil>"
      using h by (simp add: price_to_tick_pos exact_log_quotient py_int_def)
  qed
  have f: "p \<le> 0 \<longrightarrow> price_to_tick fm (Finite p) = Inl ValueError"
    by (simp add: price_to_tick_def)
  have g: "price_to_tick fm NegInf = Inl ValueError" "price_to_tick fm NaN = Inl ValueError"
    "price_to_tick fm PosInf = Inl OverflowError"
    by (simp_all add: price_to_tick_def)
  have h: "le_zero x \<or> \<not> isfinite x \<longrightarrow> calculate_tick_range fm x r s = None"
    by (simp add: calculate_tick_range_def)
  from a b c d e f g h show ?thesis by blast
qed

theorem price_to_tick_truncates_witness:
  "price_to_tick exact_math (Finite 1.0001) = Inr 1
   \<and> price_to_tick exact_math (Finite 0.99995) = Inr 0
   \<and> price_to_tick exact_math (Finite 0) = Inl ValueError
   \<and> price_to_tick exact_math PosInf = Inl OverflowError
   \<and> calculate_tick_range exact_math NaN 5 60 = None"
proof -
  have "1 \<le> (1.0001::real) \<longrightarrow>
        price_to_tick exact_math (Finite 1.0001) = Inr \<lfloor>ln (1.0001::real) / ln 1.0001\<rfloor>"
    using price_to_tick_truncates [of "1.0001" exact_math NaN 5 60] by blast
  then have a: "price_to_tick exact_math (Finite 1.0001) = Inr 1" by simp
  have "0 < (0.99995::real) \<and> (0.99995::real) < 1 \<longrightarrow>
        price_to_tick exact_math (Finite 0.99995) = Inr \<lceil>ln (0.99995::real) / ln 1.0001\<rceil>"
    using price_to_tick_truncates [of "0.99995" exact_math NaN 5 60] by blast
  then have b: "price_to_tick exact_math (Finite 0.99995) = Inr 0"
    using ceiling_quotient_below_one by simp
  have "(0::real) \<le> 0 \<longrightarrow> price_to_tick exact_math (Finite 0) = Inl ValueError"
    using price_to_tick_truncates [of 0 exact_math NaN 5 60] by blast
  then have c: "price_to_tick exact_math (Finite 0) = Inl ValueError" by simp
  have d: "price_to_tick exact_math PosInf = Inl OverflowError"
    using price_to_tick_truncates [of 1 exact_math NaN 5 60] by blast
  have "le_zero NaN \<or> \<not> isfinite NaN \<longrightarrow> calculate_tick_range exact_math NaN 5 60 = None"
    using price_to_tick_truncates [of 1 exact_math NaN 5 60] by blast
  then have e: "calculate_tick_range exact_math NaN 5 60 = None" by simp
  from a b c d e show ?thesis by blast
qed

subsection \<open>The dynamic range\<close>



text \<open>What \<open>_validate_range_settings\<close> establishes for a configuration with a positive base
  range: \<open>min < base < max\<close>, the base range itself unchanged.\<close>

lemma validate_range_settings_bounds:
  assumes "0 < price_range_percent config"
  shows "min_price_range_percent (validate_range_settings config)
           < price_range_percent (validate_range_settings config)
       \<and> price_range_percent (validate_range_settings config)
           < max_price_range_percent (validate_range_settings config)
       \<and> price_range_percent (validate_range_settings config) = price_range_percent config"
  using assms by (simp add: validate_range_settings_def Let_def)




subsection \<open>The position ratio\<close>

lemma is_position_in_range_example:
  "is_position_in_range (example_chain pos pool) (pi_token_id pos) = Some (range_info_of pos pool)"
  by (simp add: is_position_in_range_def example_chain_def)

lemma range_info_of_fields:
  "ri_tick_lower (range_info_of p q) = pi_tick_lower p"
  "ri_tick_upper (range_info_of p q) = pi_tick_upper p"
  "ri_current_tick (range_info_of p q) = pp_current_tick q"
  "ri_in_range (range_info_of p q)
     = (pi_tick_lower p \<le> pp_current_tick q \<and> pp_current_tick q \<le> pi_tick_upper p)"
  by (simp_all add: range_info_of_def Let_def split: prod.splits)

text \<open>
  C4, as stated, fails: for the position on the ticks 10 to 20 and the current tick 0, below
  the range, the position ratio is -1, outside [0, 1].
\<close>

theorem position_ratio_counterexample:
  "(case is_position_in_range (example_chain example_position (example_pool 0)) 1 of
      Some ri \<Rightarrow> ri_tick_lower ri < ri_tick_upper ri \<and> ri_position_ratio ri = -1
    | None \<Rightarrow> False)"
  by (simp add: is_position_in_range_def example_chain_def example_position_def example_pool_def
        range_info_of_def Let_def)

text \<open>
  C4, amended. For every range status computed with \<open>tick_upper > tick_lower\<close> the
  position ratio equals
  \<open>min(current_tick - tick_lower, tick_upper - current_tick) / (tick_upper - tick_lower)\<close>;
  it lies in [0, 1/2], hence in [0, 1], when the current tick is in range, and it is negative
  when the current tick is out of range. When \<open>tick_upper = tick_lower\<close> it is 0.
\<close>

theorem position_ratio_formula:
  assumes "is_position_in_range chain token_id = Some ri"
  shows "(ri_tick_lower ri < ri_tick_upper ri \<longrightarrow>
            ri_position_ratio ri =
              real_of_int (min (ri_current_tick ri - ri_tick_lower ri)
                               (ri_tick_upper ri - ri_current_tick ri))
                / real_of_int (ri_tick_upper ri - ri_tick_lower ri)
            \<and> (ri_in_range ri \<longrightarrow> 0 \<le> ri_position_ratio ri \<and> ri_position_ratio ri \<le> 1 / 2)
            \<and> (\<not> ri_in_range ri \<longrightarrow> ri_position_ratio ri < 0))
       \<and> (ri_tick_upper ri = ri_tick_lower ri \<longrightarrow> ri_position_ratio ri = 0)
       \<and> (ri_in_range ri \<longleftrightarrow>
            ri_tick_lower ri \<le> ri_current_tick ri \<and> ri_current_tick ri \<le> ri_tick_upper ri)"
proof -
  from assms obtain pos pool where ri: "ri = range_info_of pos pool"
    by (auto simp: is_position_in_range_def split: option.splits)
  show ?thesis
    unfolding ri
    by (auto simp: range_info_of_def Let_def min_def divide_simps)
qed

theorem position_ratio_formula_witness:
  "is_position_in_range (example_chain example_position (example_pool 12)) 1
     = Some (range_info_of example_position (example_pool 12))
   \<and> ri_position_ratio (range_info_of example_position (example_pool 12)) = 1 / 5
   \<and> ri_in_range (range_info_of example_position (example_pool 12))
   \<and> ri_position_ratio (range_info_of example_position (example_pool 0)) < 0
   \<and> ri_position_ratio (range_info_of (example_position\<lparr>pi_tick_upper := 10\<rparr>) (example_pool 12))
       = 0"
proof -
  have a: "is_position_in_range (example_chain example_position (example_pool 12)) 1
     = Some (range_info_of example_position (example_pool 12))"
    using is_position_in_range_example [of example_position] by (simp add: example_position_def)
  have b: "is_position_in_range (example_chain example_position (example_pool 0)) 1
     = Some (range_info_of example_position (example_pool 0))"
    using is_position_in_range_example [of example_position] by (simp add: example_position_def)
  have c: "is_position_in_range
             (example_chain (example_position\<lparr>pi_tick_upper := 10\<rparr>) (example_pool 12)) 1
     = Some (range_info_of (example_position\<lparr>pi_tick_upper := 10\<rparr>) (example_pool 12))"
    using is_position_in_range_example [of "example_position\<lparr>pi_tick_upper := 10\<rparr>"]
    by (simp add: example_position_def)
  show ?thesis
    using a position_ratio_formula [OF a] position_ratio_formula [OF b]
      position_ratio_formula [OF c]
    by (simp add: range_info_of_fields example_position_def example_pool_def)
qed


subsection \<open>Position health\<close>

lemma analyze_position_health_SomeD:
  assumes "analyze_position_health config chain balance_of token_id = Some a"
  shows "\<exists>rs pos. check_position_range_status chain token_id = Some rs
           \<and> get_position_info chain token_id = Some pos
           \<and> ha_range_status a = rs \<and> ha_position_info a = pos
           \<and> (ha_needs_rebalance a, ha_reason a, ha_urgency a)
               = classify_health (rebalance_threshold config / 100) rs (pi_liquidity pos)
           \<and> ha_health_score a = calculate_enhanced_health_score rs (pi_liquidity pos)"
proof -
  from assms obtain rs where rs: "check_position_range_status chain token_id = Some rs"
    by (cases "check_position_range_status chain token_id")
       (simp_all add: analyze_position_health_def)
  from assms rs obtain pos where pos: "get_position_info chain token_id = Some pos"
    by (cases "get_position_info chain token_id")
       (simp_all add: analyze_position_health_def)
  obtain n r u where c: "classify_health (rebalance_threshold config / 100) rs (pi_liquidity pos) = (n, r, u)"
    by (cases "classify_health (rebalance_threshold config / 100) rs (pi_liquidity pos)") auto
  from assms rs pos c show ?thesis
    by (auto simp: analyze_position_health_def Let_def)
qed

lemma range_info_of_ratio_in_range:
  "ri_in_range (range_info_of pos pool) \<Longrightarrow> ri_position_ratio (range_info_of pos pool) \<le> 1 / 2"
  by (auto simp: range_info_of_def Let_def min_def divide_simps)

lemma check_position_range_status_ratio:
  assumes "check_position_range_status chain token_id = Some rs" and "rs_in_range rs"
  shows "rs_position_ratio rs \<le> 1 / 2"
proof -
  from assms(1) obtain ri where ri: "is_position_in_range chain token_id = Some ri"
    by (cases "is_position_in_range chain token_id")
       (simp_all add: check_position_range_status_def)
  then obtain pos pool where r: "ri = range_info_of pos pool"
    by (auto simp: is_position_in_range_def split: option.splits)
  from assms(1) ri have "rs_in_range rs = ri_in_range ri" "rs_position_ratio rs = ri_position_ratio ri"
    by (auto simp: check_position_range_status_def Let_def split: if_splits)
  with assms(2) r range_info_of_ratio_in_range [of pos pool] show ?thesis by simp
qed

text \<open>
  In range the position ratio is at most 1/2. So for every rebalance threshold above 50
  percent (the default is 80, and \<open>_validate_range_settings\<close> keeps it between 50 and 95)
  the near-edge branch takes every position that is in range, and no analysis ever reports
  the zero-liquidity reason: the branch that tests the liquidity is never reached.
\<close>

lemma zero_liquidity_reason_unreachable:
  assumes "analyze_position_health config chain balance_of token_id = Some a"
    and "50 < rebalance_threshold config"
  shows "ha_reason a \<noteq> ZeroLiquidity"
proof -
  from analyze_position_health_SomeD [OF assms(1)]
  have s: "check_position_range_status chain token_id = Some (ha_range_status a)"
    and c: "(ha_needs_rebalance a, ha_reason a, ha_urgency a)
             = classify_health (rebalance_threshold config / 100) (ha_range_status a)
                 (pi_liquidity (ha_position_info a))"
    by auto
  show ?thesis
  proof (cases "rs_in_range (ha_range_status a)")
    case False
    with c show ?thesis by (simp add: classify_health_def)
  next
    case True
    from check_position_range_status_ratio [OF s True] assms(2)
    have "rs_position_ratio (ha_range_status a) < rebalance_threshold config / 100"
      by simp
    with c True show ?thesis by (simp add: classify_health_def)
  qed
qed

lemma check_position_range_status_example:
  "check_position_range_status (example_chain pos pool) (pi_token_id pos) =
     Some \<lparr> rs_token_id = pi_token_id pos,
            rs_status = (if \<not> ri_in_range (range_info_of pos pool) then ''OUT_OF_RANGE''
                         else if ri_position_ratio (range_info_of pos pool) < 0.1 then ''APPROACHING_EDGE''
                         else if ri_position_ratio (range_info_of pos pool) < 0.2 then ''NEAR_EDGE''
                         else ''SAFE''),
            rs_urgency = (if \<not> ri_in_range (range_info_of pos pool) then HIGH
                         else if ri_position_ratio (range_info_of pos pool) < 0.1 then MEDIUM
                         else if ri_position_ratio (range_info_of pos pool) < 0.2 then LOW
                         else NONE),
            rs_in_range = ri_in_range (range_info_of pos pool),
            rs_position_ratio = ri_position_ratio (range_info_of pos pool),
            rs_range_info = range_info_of pos pool,
            rs_range_utilization = None,
            rs_volatility = None \<rparr>"
  by (simp add: check_position_range_status_def is_position_in_range_example Let_def)

lemma zero_liquidity_ratio:
  "ri_position_ratio (range_info_of zero_liquidity_position (example_pool 5)) = 1 / 20"
  "ri_in_range (range_info_of zero_liquidity_position (example_pool 5))"
  by (simp_all add: range_info_of_def Let_def zero_liquidity_position_def example_position_def
        example_pool_def)

lemma zero_liquidity_fields:
  "pi_token_id zero_liquidity_position = 1" "pi_liquidity zero_liquidity_position = 0"
  by (simp_all add: zero_liquidity_position_def example_position_def)

text \<open>
  C2 does not hold of the code. With the default configuration (threshold 0.8), a position
  on the ticks 0 to 100 with liquidity 0, at the current tick 5 (in range, position ratio
  0.05), is analysed as needing a rebalance with urgency MEDIUM and the near-edge reason,
  not HIGH with the zero-liquidity reason, while \<open>_calculate_enhanced_health_score\<close>,
  which tests the liquidity before the ratio, gives it the score 0.
\<close>

theorem zero_liquidity_near_edge_is_medium:
  "(case analyze_position_health default_config
           (example_chain zero_liquidity_position (example_pool 5)) (\<lambda>token. 0) 1 of
      Some a \<Rightarrow> pi_liquidity (ha_position_info a) = 0
                \<and> rs_in_range (ha_range_status a)
                \<and> rs_position_ratio (ha_range_status a) = 1 / 20
                \<and> ha_needs_rebalance a
                \<and> ha_urgency a = MEDIUM
                \<and> ha_reason a = TooCloseToEdge (1 / 20)
                \<and> ha_health_score a = 0
    | None \<Rightarrow> False)"
proof -
  have g: "get_position_info (example_chain zero_liquidity_position (example_pool 5)) 1
             = Some zero_liquidity_position"
    by (simp add: example_chain_def zero_liquidity_fields)
  have t: "rebalance_threshold default_config / 100 = 4 / 5"
    by (simp add: default_config_def)
  show ?thesis
    using check_position_range_status_example [of zero_liquidity_position "example_pool 5"]
    by (simp add: analyze_position_health_def g t zero_liquidity_fields zero_liquidity_ratio
          classify_health_def calculate_enhanced_health_score_def)
qed

subsection \<open>Portfolio balancing\<close>




subsection \<open>The retrying swap\<close>












subsection \<open>Executing a plan\<close>

lemma action_outcomes_actions:
  "map fst (action_outcomes ex pause acts w) = acts"
  by (induction acts arbitrary: w) (auto split: prod.splits)

lemma run_actions_outcomes:
  "fst (run_actions ex pause acts w) = (\<forall>e \<in> set (action_outcomes ex pause acts w). proceeds e)
   \<and> fst (snd (run_actions ex pause acts w))
       = takeWhile proceeds (action_outcomes ex pause acts w)
         @ take 1 (dropWhile proceeds (action_outcomes ex pause acts w))"
proof (induction acts arbitrary: w)
  case Nil
  show ?case by simp
next
  case (Cons action rest)
  obtain success w1 where e: "ex action w = (success, w1)"
    by (cases "ex action w")
  show ?case
  proof (cases "\<not> success \<and> priority action = 1")
    case True
    with e show ?thesis by (simp add: proceeds_def)
  next
    case False
    define w2 where "w2 = (if success \<and> rest \<noteq> [] then pause 20 w1 else w1)"
    obtain ok executed w3 where r: "run_actions ex pause rest w2 = (ok, executed, w3)"
      by (cases "run_actions ex pause rest w2")
    have res: "run_actions ex pause (action # rest) w = (ok, (action, success) # executed, w3)"
      using e r False by (auto simp: w2_def Let_def)
    have out: "action_outcomes ex pause (action # rest) w
                 = (action, success) # action_outcomes ex pause rest w2"
      using e by (simp add: w2_def)
    have p: "proceeds (action, success)"
      using False by (auto simp: proceeds_def)
    from Cons.IH [of w2] r
    have "ok = (\<forall>e \<in> set (action_outcomes ex pause rest w2). proceeds e)"
      "executed = takeWhile proceeds (action_outcomes ex pause rest w2)
         @ take 1 (dropWhile proceeds (action_outcomes ex pause rest w2))"
      by simp_all
    then show ?thesis
      unfolding res out using p by simp
  qed
qed

lemma run_actions_trace:
  "case run_actions ex pause acts w of
     (ok, executed, w') \<Rightarrow>
       (\<exists>rest. acts = map fst executed @ rest \<and> (ok \<longrightarrow> rest = []))
       \<and> (\<not> ok \<longrightarrow> executed \<noteq> [] \<and> \<not> snd (last executed)
                    \<and> priority (fst (last executed)) = 1)
       \<and> (\<forall>e \<in> set (butlast executed). snd e \<or> priority (fst e) \<noteq> 1)
       \<and> (ok \<longrightarrow> (\<forall>e \<in> set executed. snd e \<or> priority (fst e) \<noteq> 1))"
proof (induction acts arbitrary: w)
  case Nil
  show ?case by simp
next
  case (Cons action rest)
  obtain success w1 where e: "ex action w = (success, w1)"
    by (cases "ex action w")
  show ?case
  proof (cases "\<not> success \<and> priority action = 1")
    case True
    with e show ?thesis by simp
  next
    case False
    define w2 where "w2 = (if success then (if rest \<noteq> [] then pause 20 w1 else w1) else w1)"
    obtain ok executed w3 where r: "run_actions ex pause rest w2 = (ok, executed, w3)"
      by (cases "run_actions ex pause rest w2")
    from Cons.IH [of w2] r
    have ih: "(\<exists>rest'. rest = map fst executed @ rest' \<and> (ok \<longrightarrow> rest' = []))"
      "\<not> ok \<longrightarrow> executed \<noteq> [] \<and> \<not> snd (last executed) \<and> priority (fst (last executed)) = 1"
      "\<forall>e \<in> set (butlast executed). snd e \<or> priority (fst e) \<noteq> 1"
      "ok \<longrightarrow> (\<forall>e \<in> set executed. snd e \<or> priority (fst e) \<noteq> 1)"
      by simp_all
    have res: "run_actions ex pause (action # rest) w = (ok, (action, success) # executed, w3)"
      using e r False by (auto simp: w2_def Let_def)
    have b: "\<forall>e \<in> set (butlast ((action, success) # executed)). snd e \<or> priority (fst e) \<noteq> 1"
      using ih(3) False by (cases executed) auto
    show ?thesis
      unfolding res using ih(1,2,4) b False by auto
  qed
qed

text \<open>
  C7. \<open>execute_rebalance_plan\<close> processes the actions in ascending priority order. With
  the outcomes that \<open>_execute_single_action\<close> gives on the plan sorted by priority, the
  actions executed are those up to and including the first one that fails with priority
  1, and all of them when there is none; the result is \<open>False\<close> exactly when some action
  of priority 1 fails. So the first failing action of priority 1 ends the run with failure
  and nothing is executed after it (in particular when the first action of the sorted plan
  is such a one), while a failing action of another priority does not stop the run: when no
  action of priority 1 fails, every action is executed and the result is \<open>True\<close>.
\<close>

theorem execute_rebalance_plan_order:
  "case execute_rebalance_plan ex pause actions w of
     (ok, executed, w') \<Rightarrow>
       (let outcomes = action_outcomes ex pause (sort_key priority actions) w
        in map fst outcomes = sort_key priority actions
           \<and> sorted (map priority (map fst outcomes))
           \<and> ok = (\<forall>e \<in> set outcomes. proceeds e)
           \<and> executed = takeWhile proceeds outcomes @ take 1 (dropWhile proceeds outcomes))
       \<and> (\<forall>a rest. sort_key priority actions = a # rest \<and> priority a = 1 \<and> \<not> fst (ex a w)
              \<longrightarrow> \<not> ok \<and> executed = [(a, False)])
       \<and> (\<exists>rest. sort_key priority actions = map fst executed @ rest \<and> (ok \<longrightarrow> rest = []))
       \<and> sorted (map priority (map fst executed))
       \<and> (\<not> ok \<longrightarrow> executed \<noteq> [] \<and> \<not> snd (last executed)
                    \<and> priority (fst (last executed)) = 1)
       \<and> (\<forall>e \<in> set (butlast executed). snd e \<or> priority (fst e) \<noteq> 1)
       \<and> (ok \<longrightarrow> (\<forall>e \<in> set executed. snd e \<or> priority (fst e) \<noteq> 1))"
proof -
  let ?sorted = "sort_key priority actions"
  let ?outcomes = "action_outcomes ex pause ?sorted w"
  obtain ok executed w' where r: "run_actions ex pause ?sorted w = (ok, executed, w')"
    by (cases "run_actions ex pause ?sorted w")
  from run_actions_trace [where ex = ex and pause = pause and acts = ?sorted and w = w] r
  have t: "(\<exists>rest. ?sorted = map fst executed @ rest \<and> (ok \<longrightarrow> rest = []))"
      "\<not> ok \<longrightarrow> executed \<noteq> [] \<and> \<not> snd (last executed) \<and> priority (fst (last executed)) = 1"
      "\<forall>e \<in> set (butlast executed). snd e \<or> priority (fst e) \<noteq> 1"
      "ok \<longrightarrow> (\<forall>e \<in> set executed. snd e \<or> priority (fst e) \<noteq> 1)"
    by simp_all
  from t(1) obtain rest where "?sorted = map fst executed @ rest" by blast
  then have "map priority ?sorted = map priority (map fst executed) @ map priority rest"
    by simp
  moreover have ss: "sorted (map priority ?sorted)"
    by (rule sorted_sort_key)
  ultimately have s: "sorted (map priority (map fst executed))"
    by (simp add: sorted_append)
  from run_actions_outcomes [where ex = ex and pause = pause and acts = ?sorted and w = w] r
  have o: "ok = (\<forall>e \<in> set ?outcomes. proceeds e)"
    "executed = takeWhile proceeds ?outcomes @ take 1 (dropWhile proceeds ?outcomes)"
    by simp_all
  have m: "map fst ?outcomes = ?sorted"
    by (rule action_outcomes_actions)
  have h: "\<forall>a rest. ?sorted = a # rest \<and> priority a = 1 \<and> \<not> fst (ex a w)
              \<longrightarrow> \<not> ok \<and> executed = [(a, False)]"
  proof (intro allI impI)
    fix a rest
    assume p: "?sorted = a # rest \<and> priority a = 1 \<and> \<not> fst (ex a w)"
    obtain s w1 where e: "ex a w = (s, w1)" by (cases "ex a w")
    with p have "s = False" by simp
    with p e have "run_actions ex pause ?sorted w = (False, [(a, False)], w1)"
      by simp
    with r show "\<not> ok \<and> executed = [(a, False)]" by simp
  qed
  have ss': "sorted (map priority (map fst ?outcomes))"
    using ss m by simp
  show ?thesis
    unfolding execute_rebalance_plan_def r Let_def prod.case
    using t s o m ss' h by blast
qed

lemma example_action_fields:
  "priority (example_action kind p) = p" "action_type (example_action kind p) = kind"
  by (simp_all add: example_action_def)

lemma example_plan_sorted:
  "sort_key priority example_plan =
     [example_action ''close_position'' 1, example_action ''create_position'' 2,
      example_action ''auto_balance'' 2]"
  by (simp add: example_plan_def sort_key_def example_action_fields)

lemma example_plan_low_priority_failure:
  "execute_rebalance_plan (failing_on ''auto_balance'') (\<lambda>seconds w. w + seconds) example_plan 0
     = (True, [(example_action ''close_position'' 1, True),
               (example_action ''create_position'' 2, True),
               (example_action ''auto_balance'' 2, False)], 43)"
  by (simp add: execute_rebalance_plan_def example_plan_sorted failing_on_def
        example_action_fields)

lemma example_plan_high_priority_failure:
  "execute_rebalance_plan (failing_on ''close_position'') (\<lambda>seconds w. w + seconds) example_plan 0
     = (False, [(example_action ''close_position'' 1, False)], 1)"
  by (simp add: execute_rebalance_plan_def example_plan_sorted failing_on_def
        example_action_fields)

theorem execute_rebalance_plan_order_witness:
  "execute_rebalance_plan (failing_on ''auto_balance'') (\<lambda>seconds w. w + seconds) example_plan 0
     = (True, [(example_action ''close_position'' 1, True),
               (example_action ''create_position'' 2, True),
               (example_action ''auto_balance'' 2, False)], 43)
   \<and> sort_key priority example_plan
       = map fst [(example_action ''close_position'' 1, True),
                  (example_action ''create_position'' 2, True),
                  (example_action ''auto_balance'' 2, False)]
   \<and> execute_rebalance_plan (failing_on ''close_position'') (\<lambda>seconds w. w + seconds)
        example_plan 0
       = (False, [(example_action ''close_position'' 1, False)], 1)
   \<and> priority (example_action ''close_position'' 1) = 1"
  using execute_rebalance_plan_order
          [where ex = "failing_on ''auto_balance''" and pause = "\<lambda>seconds w. w + seconds"
             and actions = example_plan and w = 0]
        execute_rebalance_plan_order
          [where ex = "failing_on ''close_position''" and pause = "\<lambda>seconds w. w + seconds"
             and actions = example_plan and w = 0]
  by (simp add: example_plan_low_priority_failure example_plan_high_priority_failure
        example_action_fields)

subsection \<open>Swaps and position removal\<close>

text \<open>The gas price is read while the dict for \<open>build_transaction\<close> is evaluated, before the
  nonce is taken and before anything is sent: with the wallet of core/wallet.py the read
  raises, so no call is ever handed to \<open>send_transaction\<close>.\<close>

lemma submit_call_raises:
  "submit_call env contract call gas timeout w = (None, [], w)"
  by (simp add: submit_call_def wallet_get_celo_gas_price_def)

lemma swap_tokens_never_submits:
  "swap_tokens fm env token_in token_out amount_in fee min_amount_out w = (None, [], w)"
  by (simp add: swap_tokens_def submit_call_raises Let_def split: option.splits sum.splits)

lemma example_env_fields:
  "to_checksum_address (example_uniswap_env chain) address
     = (if address = [] then None else Some address)"
  "uniswap_v3_router (example_uniswap_env chain) = ''0xR''"
  "position_manager (example_uniswap_env chain) = ''0xM''"
  "account_address (example_uniswap_env chain) = ''0xW''"
  "latest_block_timestamp (example_uniswap_env chain) w = Inr 1000"
  "next_nonce (example_uniswap_env chain) w = (Inr (int w), Suc w)"
  "build_ok (example_uniswap_env chain) call w = True"
  "send_transaction (example_uniswap_env chain) tx w = (Some ''0xH'', w)"
  "wait_for_transaction (example_uniswap_env chain) tx_hash timeout w = (True, w)"
  "view (example_uniswap_env chain) w = chain"
  by (simp_all add: example_uniswap_env_def)

lemma example_validate:
  "validate_swap_params (example_uniswap_env chain) ''0xA'' ''0xB'' 1000 3000"
  by (simp add: validate_swap_params_def example_env_fields str_lower_def lower_char_def)

text \<open>
  C9 does not hold of the code. \<open>swap_tokens\<close> computes the substituted minimum
  \<open>int(amount_in * (1 - 0.05))\<close> and then asks the wallet for
  \<open>_get_celo_gas_price()\<close>, a method that \<open>WalletManager\<close> does not have: the
  AttributeError is caught by the function's own \<open>except\<close> and the call returns \<open>None\<close>.
  On a node and wallet where every other call succeeds, the valid swap of 1000 units of
  \<open>0xA\<close> into \<open>0xB\<close> at fee 3000 with \<open>min_amount_out = 0\<close> returns no
  transaction hash, hands no transaction to \<open>send_transaction\<close> and leaves the nonce
  where it was: the swap is not submitted, with or without a minimum.
\<close>

theorem swap_tokens_submits_nothing:
  "validate_swap_params (example_uniswap_env (example_chain example_position (example_pool 12)))
     ''0xA'' ''0xB'' 1000 3000
   \<and> swap_tokens exact_math
        (example_uniswap_env (example_chain example_position (example_pool 12)))
        ''0xA'' ''0xB'' 1000 3000 0 0
       = (None, [], 0)"
  by (simp add: example_validate swap_tokens_never_submits)

text \<open>
  C10. For a position whose fetched liquidity is 0, \<open>remove_position\<close> returns
  \<open>True\<close> at once: no transaction is handed to the wallet and the state of the world is
  unchanged.
\<close>

theorem remove_position_zero_liquidity:
  assumes "get_position_info (view env w) token_id = Some position_info"
    and "pi_liquidity position_info = 0"
  shows "remove_position env token_id w = (True, [], w)"
  using assms by (simp add: remove_position_def)

theorem remove_position_zero_liquidity_witness:
  "get_position_info
       (view (example_uniswap_env (example_chain zero_liquidity_position (example_pool 5))) 0) 1
     = Some zero_liquidity_position
   \<and> pi_liquidity zero_liquidity_position = 0
   \<and> remove_position (example_uniswap_env (example_chain zero_liquidity_position (example_pool 5)))
        1 0 = (True, [], 0)"
proof -
  have g: "get_position_info
       (view (example_uniswap_env (example_chain zero_liquidity_position (example_pool 5))) 0) 1
     = Some zero_liquidity_position"
    by (simp add: example_env_fields example_chain_def zero_liquidity_fields)
  have l: "pi_liquidity zero_liquidity_position = 0"
    by (simp add: zero_liquidity_fields)
  from remove_position_zero_liquidity [OF g l] g l show ?thesis by simp
qed

end
